theory Spec2Isabelle
  imports Complex_Main "HOL-Library.AList"
begin

section \<open>Errors\<close>

text \<open>
  The Python exceptions the modelled code can raise. A function that can raise returns
  \<open>py_error + 'a\<close>, with \<open>Inl\<close> for the exception.
\<close>

datatype py_error = ValueError | TypeError | AttributeError | IndexError

section \<open>Wordbag\<close>

text \<open>
  \<^verbatim>\<open>class Wordbag\<close>: the vocabulary \<open>words\<close> and the current \<open>_sample\<close>, which is
  \<open>None\<close> until \<open>randomize\<close> has been called.
\<close>

record wordbag =
  wb_words :: "string list"
  wb_sample :: "string list option"

definition Wordbag_init :: "string list \<Rightarrow> wordbag" where
  "Wordbag_init ws = \<lparr>wb_words = ws, wb_sample = None\<rparr>"

text \<open>\<^verbatim>\<open>__bool__\<close>: \<open>bool(self._sample)\<close>; both \<open>None\<close> and the empty list are false.\<close>

definition Wordbag_bool :: "wordbag \<Rightarrow> bool" where
  "Wordbag_bool wb = (case wb_sample wb of None \<Rightarrow> False | Some s \<Rightarrow> s \<noteq> [])"

text \<open>\<^verbatim>\<open>__len__\<close>: \<open>len(None)\<close> raises TypeError.\<close>

definition Wordbag_len :: "wordbag \<Rightarrow> py_error + int" where
  "Wordbag_len wb = (case wb_sample wb of None \<Rightarrow> Inl TypeError | Some s \<Rightarrow> Inr (int (length s)))"

text \<open>
  \<^verbatim>\<open>pop\<close>: \<open>self._sample.pop()\<close> removes and returns the last element; \<open>None\<close> has no
  attribute \<open>pop\<close> (AttributeError), an empty list raises IndexError.
\<close>

definition Wordbag_pop :: "wordbag \<Rightarrow> py_error + (string \<times> wordbag)" where
  "Wordbag_pop wb =
     (case wb_sample wb of
        None \<Rightarrow> Inl AttributeError
      | Some s \<Rightarrow> (if s = [] then Inl IndexError
                   else Inr (last s, wb\<lparr>wb_sample := Some (butlast s)\<rparr>)))"

text \<open>
  \<^verbatim>\<open>random.sample(population, k)\<close> (library code). Given a set, Python up to 3.10
  turns it into a sequence first (from 3.9 on with a deprecation warning), while Python
  3.11 and later raise TypeError at once, before \<open>k\<close> is looked at. Given a sequence,
  it raises ValueError when \<open>k\<close> is negative or larger than the population, and
  otherwise returns \<open>k\<close> elements chosen without replacement. Which of the two
  libraries runs the program is \<open>sets_accepted\<close>; \<open>is_set\<close> says that the
  population handed over is a set, its elements listed in \<open>population\<close>. The random
  choices enter as \<open>rnd\<close>: the draw for the element chosen when \<open>j\<close> more are still
  to come after it is \<open>rnd j\<close>, reduced modulo the size of what is left.
\<close>

fun draw_sample :: "(nat \<Rightarrow> nat) \<Rightarrow> 'a list \<Rightarrow> nat \<Rightarrow> 'a list" where
  "draw_sample rnd pool 0 = []"
| "draw_sample rnd pool (Suc j) =
     (let i = rnd j mod length pool
      in pool ! i # draw_sample rnd (take i pool @ drop (Suc i) pool) j)"

definition random_sample ::
  "bool \<Rightarrow> (nat \<Rightarrow> nat) \<Rightarrow> bool \<Rightarrow> 'a list \<Rightarrow> int \<Rightarrow> py_error + 'a list" where
  "random_sample sets_accepted rnd is_set population k =
     (if is_set \<and> \<not> sets_accepted then Inl TypeError
      else if k < 0 \<or> int (length population) < k then Inl ValueError
      else Inr (draw_sample rnd population (nat k)))"

text \<open>
  \<^verbatim>\<open>randomize(k, predicate=None)\<close>: the population is the \<^emph>\<open>set\<close> of the words that
  satisfy the predicate (duplicates collapse, \<open>remdups\<close>), and it is handed to
  \<open>random.sample\<close> as a set; the sample is assigned only when \<open>random.sample\<close>
  returns.
\<close>

definition Wordbag_randomize ::
  "bool \<Rightarrow> (nat \<Rightarrow> nat) \<Rightarrow> int \<Rightarrow> (string \<Rightarrow> bool) option \<Rightarrow> wordbag \<Rightarrow> py_error + wordbag" where
  "Wordbag_randomize sets_accepted rnd k predicate wb =
     (let p = (case predicate of None \<Rightarrow> (\<lambda>word. True) | Some q \<Rightarrow> q);
          population = remdups (filter p (wb_words wb))
      in case random_sample sets_accepted rnd True population k of
           Inl e \<Rightarrow> Inl e
         | Inr s \<Rightarrow> Inr (wb\<lparr>wb_sample := Some s\<rparr>))"

section \<open>Timer registry\<close>

text \<open>
  \<^verbatim>\<open>cooldowns = collections.defaultdict(int)\<close>: a global dictionary, here an association
  list in insertion order. Its keys are the bound method \<open>spawn_word\<close>, the string
  \<open>'player-hit'\<close> and Explosion objects (by identity, here a number). Reading a missing
  key gives 0; that the read also inserts the key with 0 is not modelled, as an entry
  with value 0 behaves like a missing one everywhere.
\<close>

datatype ckey = SpawnWord | PlayerHit | ExplosionKey nat

type_synonym cooldowns = "(ckey \<times> int) list"

definition cd_get :: "cooldowns \<Rightarrow> ckey \<Rightarrow> int" where
  "cd_get cd k = (case map_of cd k of None \<Rightarrow> 0 | Some v \<Rightarrow> v)"

definition cd_set :: "ckey \<Rightarrow> int \<Rightarrow> cooldowns \<Rightarrow> cooldowns" where
  "cd_set k v cd = AList.update k v cd"

text \<open>
  The loop of \<^verbatim>\<open>Engine.run\<close> under \<^verbatim>\<open># update cooldowns\<close>:
  \<^verbatim>\<open>for key, value in cooldowns.items(): if value > 0: cooldowns[key] -= elapsed\<close>.
\<close>

definition update_cooldowns :: "int \<Rightarrow> cooldowns \<Rightarrow> cooldowns" where
  "update_cooldowns elapsed cd = map (\<lambda>(k, v). (k, if v > 0 then v - elapsed else v)) cd"

section \<open>Rectangles and random placement\<close>

text \<open>
  \<^verbatim>\<open>pygame.Rect\<close> (library code): integer left, top, width and height, with the derived
  attributes the source uses. Setting \<open>center\<close> moves the rectangle; \<open>clamp_ip\<close>
  moves it inside another one, or centres it there on an axis on which it is too large.
  Sizes are non-negative wherever the source builds a rectangle, so the library's
  truncating division and \<open>div\<close> agree.
\<close>

record rect =
  rleft :: int
  rtop :: int
  rwidth :: int
  rheight :: int

definition rright :: "rect \<Rightarrow> int" where
  "rright r = rleft r + rwidth r"

definition rbottom :: "rect \<Rightarrow> int" where
  "rbottom r = rtop r + rheight r"

definition rcenter :: "rect \<Rightarrow> int \<times> int" where
  "rcenter r = (rleft r + rwidth r div 2, rtop r + rheight r div 2)"

definition set_center :: "int \<times> int \<Rightarrow> rect \<Rightarrow> rect" where
  "set_center c r = r\<lparr>rleft := fst c - rwidth r div 2, rtop := snd c - rheight r div 2\<rparr>"

definition clamp_axis :: "int \<Rightarrow> int \<Rightarrow> int \<Rightarrow> int \<Rightarrow> int" where
  "clamp_axis x w bx bw =
     (if w \<ge> bw then bx + bw div 2 - w div 2
      else if x < bx then bx
      else if x + w > bx + bw then bx + bw - w
      else x)"

definition clamp_ip :: "rect \<Rightarrow> rect \<Rightarrow> rect" where
  "clamp_ip inside r =
     r\<lparr>rleft := clamp_axis (rleft r) (rwidth r) (rleft inside) (rwidth inside),
       rtop := clamp_axis (rtop r) (rheight r) (rtop inside) (rheight inside)\<rparr>"

definition colliderect :: "rect \<Rightarrow> rect \<Rightarrow> bool" where
  "colliderect a b \<longleftrightarrow>
     rleft a < rleft b + rwidth b \<and> rtop a < rtop b + rheight b \<and>
     rleft a + rwidth a > rleft b \<and> rtop a + rheight a > rtop b"


text \<open>
  \<^verbatim>\<open>random.randint(a, b)\<close>: an integer of \<open>[a, b]\<close>, ValueError on an empty range. The
  random source is the raw draw \<open>r\<close>.
\<close>

definition randint :: "int \<Rightarrow> int \<Rightarrow> nat \<Rightarrow> py_error + int" where
  "randint a b r = (if b < a then Inl ValueError else Inr (a + int r mod (b - a + 1)))"

text \<open>
  \<^verbatim>\<open>random_location(rect, inside, avoiding=None, limit=None)\<close>. Each pass of the
  \<open>while\<close> loop takes one pair of raw draws; the loop ends when \<open>count\<close> reaches the
  limit (none for \<open>limit=None\<close>), when \<open>avoiding\<close> is empty or \<open>None\<close> (here both
  \<open>[]\<close>), or when the placed rectangle collides with none of \<open>avoiding\<close>. With no
  limit the loop need not end: the result is \<open>None\<close> when the supplied draws are used up
  before it does.
\<close>

fun random_location_loop ::
  "rect \<Rightarrow> rect list \<Rightarrow> nat option \<Rightarrow> nat \<Rightarrow> rect \<Rightarrow> (nat \<times> nat) list
     \<Rightarrow> (py_error + rect) option" where
  "random_location_loop inside avoiding limit count rect [] =
     (if (case limit of None \<Rightarrow> False | Some l \<Rightarrow> l \<le> count) then Some (Inr rect) else None)"
| "random_location_loop inside avoiding limit count rect (d # ds) =
     (if (case limit of None \<Rightarrow> False | Some l \<Rightarrow> l \<le> count) then Some (Inr rect)
      else case randint (rleft inside) (rright inside) (fst d) of
             Inl e \<Rightarrow> Some (Inl e)
           | Inr x \<Rightarrow>
              (case randint (rtop inside) (rbottom inside) (snd d) of
                 Inl e \<Rightarrow> Some (Inl e)
               | Inr y \<Rightarrow>
                  (let rect' = clamp_ip inside (set_center (x, y) rect)
                   in if avoiding = [] then Some (Inr rect')
                      else if list_ex (colliderect rect') avoiding
                      then random_location_loop inside avoiding limit (Suc count) rect' ds
                      else Some (Inr rect'))))"

definition random_location ::
  "rect \<Rightarrow> rect \<Rightarrow> rect list \<Rightarrow> nat option \<Rightarrow> (nat \<times> nat) list \<Rightarrow> (py_error + rect) option" where
  "random_location rect inside avoiding limit draws =
     random_location_loop inside avoiding limit 0 rect draws"

text \<open>
  The rectangle one pass of the loop of \<open>random_location\<close> places when both ranges
  of \<open>randint\<close> are non-empty.
\<close>

definition place :: "rect \<Rightarrow> rect \<Rightarrow> nat \<times> nat \<Rightarrow> rect" where
  "place rect inside d =
     clamp_ip inside (set_center
       (rleft inside + int (fst d) mod (rwidth inside + 1),
        rtop inside + int (snd d) mod (rheight inside + 1)) rect)"

section \<open>Sprites, scenes and events\<close>

text \<open>
  Objects are told apart by identity; a sprite is named by its class and a number taken
  from the allocation counter \<open>fresh\<close> when it is constructed. A \<open>TextSprite\<close> builds
  its own \<open>EnemyShipSprite\<close> and each refers to the other, so both carry the number of
  the target they form. A \<open>Spark\<close> is named by its Explosion and its index in it.
\<close>

datatype sprite =
    PlayerSprite
  | ReadySprite
  | TextSprite nat
  | EnemyShipSprite nat
  | BulletSprite nat
  | Spark nat nat

fun is_TextSprite :: "sprite \<Rightarrow> bool" where
  "is_TextSprite (TextSprite t) = True"
| "is_TextSprite s = False"

fun is_EnemyShipSprite :: "sprite \<Rightarrow> bool" where
  "is_EnemyShipSprite (EnemyShipSprite t) = True"
| "is_EnemyShipSprite s = False"

fun is_BulletSprite :: "sprite \<Rightarrow> bool" where
  "is_BulletSprite (BulletSprite b) = True"
| "is_BulletSprite s = False"

fun is_Spark :: "sprite \<Rightarrow> bool" where
  "is_Spark (Spark e i) = True"
| "is_Spark s = False"

text \<open>
  The scenes on the state manager's stack: the one \<open>Gameplay\<close> object, or a
  \<open>MenuState\<close> with its items and its hovered button (an index into the items; unset
  before the menu is entered). A button's callback is one of the four the source uses:
  \<open>popstate\<close>, \<open>lambda: pushstate(gameplay)\<close>, \<open>back_to_mainmenu\<close> and \<open>quit\<close>.
\<close>

datatype callback = CbPopstate | CbPushGameplay | CbBackToMainmenu | CbQuit

datatype item = Label string | Button string callback

datatype scene = Gameplay | MenuState "item list" "nat option"

text \<open>
  Events of the pygame queue. A key press carries the key and its \<open>unicode\<close> string; a
  mouse event carries, in place of its position, the index of the first button sprite
  whose rectangle holds that position, if there is one.
\<close>

datatype key = K_ESCAPE | K_RETURN | K_DOWN | K_UP | K_other

datatype event =
    KEYDOWN key string
  | MOUSEBUTTONDOWN "nat option"
  | MOUSEMOTION "nat option"
  | POPSTATE
  | PUSHSTATE scene
  | QUIT

section \<open>Gameplay state\<close>

datatype updater = update_intro_m | update_gameplay_m | update_wait_m

text \<open>
  The attributes of the \<open>Gameplay\<close> object and of the sprites it owns. \<open>updatestack\<close>
  and \<open>group\<close> are Python lists in their own order (the top of the stack is the last
  element). \<open>font\<close> is the font's \<open>size\<close> function. The player's \<open>health\<close> is kept
  here; \<open>texts\<close> and \<open>position\<close> belong to the target of that number, \<open>target\<close> and
  \<open>accumulator\<close> to the bullet, \<open>sparks\<close> is the sprite group of the Explosion.
  Images, colours, angles and the banner's position are not modelled.
\<close>

record gameplay =
  spawn_area :: rect
  wordbag :: wordbag
  font :: "string \<Rightarrow> int \<times> int"
  levels :: "(int \<times> (string \<Rightarrow> bool)) list"
  skip_intro :: bool
  paused :: bool
  updatestack :: "updater list"
  readytime :: rat
  damage_on_miss :: bool
  level :: nat
  max_nsprites :: int
  locked :: "nat option"
  health :: int
  group :: "sprite list"
  texts :: "nat \<Rightarrow> string"
  position :: "nat \<Rightarrow> rat \<times> rat"
  target :: "nat \<Rightarrow> nat"
  accumulator :: "nat \<Rightarrow> int"
  sparks :: "nat \<Rightarrow> nat list"
  fresh :: nat

text \<open>
  The process state: the state manager's stack (top last), the global \<open>cooldowns\<close>,
  the pygame event queue and the Gameplay object.
\<close>

record world =
  stack :: "scene list"
  cooldowns :: cooldowns
  posted :: "event list"
  game :: gameplay

text \<open>
  What one frame takes from outside the program: the clock's milliseconds, whether the
  interpreter's \<open>random.sample\<close> accepts a set (Python up to 3.10), the random
  draws, and the results of the floating-point geometry (whether a spark's rectangle
  has left the space, where the knock-back and the one-pixel approach put a ship,
  whether a ship's rectangle then collides with the player's). \<open>set_order\<close> ranks
  sprites as the iteration of a Python \<open>set\<close> orders them (by hash).
\<close>

record env =
  elapsed :: int
  sample_accepts_sets :: bool
  rnd_sample :: "nat \<Rightarrow> nat"
  rnd_xy :: "nat \<times> nat"
  rnd_spark :: "sprite \<Rightarrow> nat \<Rightarrow> nat \<times> nat \<times> rat"
  out_of_bounds :: "sprite \<Rightarrow> bool"
  knock_back :: "rat \<times> rat \<Rightarrow> rat \<times> rat"
  approach :: "rat \<times> rat \<Rightarrow> rat \<times> rat"
  collides :: "rat \<times> rat \<Rightarrow> bool"
  set_order :: "sprite \<Rightarrow> nat"

definition Gameplay_init ::
  "rect \<Rightarrow> wordbag \<Rightarrow> (string \<Rightarrow> int \<times> int) \<Rightarrow> (int \<times> (string \<Rightarrow> bool)) list \<Rightarrow> bool \<Rightarrow> gameplay" where
  "Gameplay_init area bag fnt lvls skip =
     \<lparr>spawn_area = area, wordbag = bag, font = fnt, levels = lvls, skip_intro = skip,
      paused = False, updatestack = [], readytime = 0, damage_on_miss = False, level = 0,
      max_nsprites = 3, locked = None, health = 3, group = [],
      texts = (\<lambda>t. []), position = (\<lambda>t. (0, 0)), target = (\<lambda>b. 0),
      accumulator = (\<lambda>b. 0), sparks = (\<lambda>e. []), fresh = 0\<rparr>"

definition post :: "event \<Rightarrow> world \<Rightarrow> world" where
  "post ev w = w\<lparr>posted := posted w @ [ev]\<rparr>"

subsection \<open>The sprite group\<close>

text \<open>
  \<^verbatim>\<open>pg.sprite.LayeredUpdates\<close> (library code): sprites sorted by layer, a new sprite
  going behind the last one whose layer is not above its own. A \<open>TextSprite\<close> is given
  layer 10 by \<open>spawn_word\<close>, every other sprite has the default layer 0.
  \<open>move_to_front\<close> puts a sprite last, in the top layer. \<open>kill\<close> takes a sprite out of
  every group it is in.
\<close>

definition layer_of :: "sprite \<Rightarrow> nat" where
  "layer_of s = (if is_TextSprite s then 10 else 0)"

definition group_add1 :: "sprite \<Rightarrow> sprite list \<Rightarrow> sprite list" where
  "group_add1 s g =
     (if s \<in> set g then g
      else takeWhile (\<lambda>x. layer_of x \<le> layer_of s) g @ s # dropWhile (\<lambda>x. layer_of x \<le> layer_of s) g)"

definition group_add :: "sprite list \<Rightarrow> sprite list \<Rightarrow> sprite list" where
  "group_add ss g = fold group_add1 ss g"

definition move_to_front :: "sprite \<Rightarrow> sprite list \<Rightarrow> sprite list" where
  "move_to_front s g = removeAll s g @ [s]"

definition kill :: "sprite \<Rightarrow> gameplay \<Rightarrow> gameplay" where
  "kill s g =
     (case s of
        Spark e i \<Rightarrow> g\<lparr>group := removeAll s (group g),
                          sparks := (sparks g)(e := removeAll i (sparks g e))\<rparr>
      | _ \<Rightarrow> g\<lparr>group := removeAll s (group g)\<rparr>)"

subsection \<open>Menus\<close>

definition pause_items :: "item list" where
  "pause_items = [Label ''Paused'', Button ''Resume'' CbPopstate,
     Button ''Main menu'' CbBackToMainmenu, Button ''Exit to desktop'' CbQuit]"

definition pause_menu :: scene where
  "pause_menu = MenuState pause_items None"

definition died_menu :: scene where
  "died_menu = MenuState [Label ''You Died'', Button ''Restart'' CbPopstate,
     Button ''Main menu'' CbBackToMainmenu, Button ''Exit to desktop'' CbQuit] None"

definition winner_menu :: scene where
  "winner_menu = MenuState [Label ''A Winner is You!'', Button ''Restart'' CbPopstate,
     Button ''Main menu'' CbBackToMainmenu, Button ''Exit to desktop'' CbQuit] None"

definition deathstate :: scene where
  "deathstate = MenuState [Label ''Game Over'', Button ''Restart'' CbPushGameplay,
     Button ''Exit to desktop'' CbQuit] None"

definition mainmenu :: scene where
  "mainmenu = MenuState [Label ''PyType'', Button ''Play'' CbPushGameplay,
     Button ''Exit to desktop'' CbPopstate] None"

subsection \<open>Typing\<close>

text \<open>
  \<^verbatim>\<open>hit_player\<close>: one point of health less; at exactly 0 the scene is popped and the
  Game Over menu pushed (both through the event queue).
\<close>

definition hit_player :: "world \<Rightarrow> world" where
  "hit_player w =
     (let g = (game w)\<lparr>health := health (game w) - 1\<rparr>
      in if health g = 0
         then post (PUSHSTATE deathstate) (post POPSTATE (w\<lparr>game := g\<lparr>paused := False\<rparr>\<rparr>))
         else w\<lparr>game := g\<rparr>)"

text \<open>
  The scan of \<^verbatim>\<open>fire\<close> when nothing is locked: the first TextSprite of the group
  whose text is non-empty and starts with the letter.
\<close>

definition find_target :: "string \<Rightarrow> gameplay \<Rightarrow> nat option" where
  "find_target letter g =
     (case List.find (\<lambda>s. case s of TextSprite t \<Rightarrow> texts g t \<noteq> [] \<and> letter = [hd (texts g t)]
                                  | _ \<Rightarrow> False) (group g) of
        Some (TextSprite t) \<Rightarrow> Some t
      | _ \<Rightarrow> None)"

text \<open>
  \<^verbatim>\<open>fire(letter)\<close>. With a locked target, \<open>self.locked.text[0]\<close> raises IndexError on
  an empty text. A matching letter is consumed, the TextSprite moved to the front if
  the group still has it, a bullet aimed at the target's ship added, and the lock given
  up when the text is now empty. Another letter is a miss.
\<close>

definition fire :: "string \<Rightarrow> world \<Rightarrow> py_error + world" where
  "fire letter w =
     (let g0 = game w;
          g1 = (if locked g0 = None then g0\<lparr>locked := find_target letter g0\<rparr> else g0)
      in case locked g1 of
           None \<Rightarrow> Inr (w\<lparr>game := g1\<rparr>)
         | Some t \<Rightarrow>
            (if texts g1 t = [] then Inl IndexError
             else if letter = [hd (texts g1 t)] then
               (let g2 = g1\<lparr>texts := (texts g1)(t := tl (texts g1 t))\<rparr>;
                    g3 = (if TextSprite t \<in> set (group g2)
                          then g2\<lparr>group := move_to_front (TextSprite t) (group g2)\<rparr> else g2);
                    b = fresh g3;
                    g4 = g3\<lparr>target := (target g3)(b := t),
                            accumulator := (accumulator g3)(b := 0),
                            group := group_add [BulletSprite b] (group g3),
                            fresh := Suc b\<rparr>;
                    g5 = (if texts g4 t = [] then g4\<lparr>locked := None\<rparr> else g4)
                in Inr (w\<lparr>game := g5\<rparr>))
             else if damage_on_miss g1 then Inr (hit_player (w\<lparr>game := g1\<rparr>))
             else Inr (w\<lparr>game := g1\<rparr>)))"

definition on_keydown :: "key \<Rightarrow> string \<Rightarrow> world \<Rightarrow> py_error + world" where
  "on_keydown k unicode w =
     (if k = K_ESCAPE
      then Inr (post (PUSHSTATE pause_menu) (w\<lparr>game := (game w)\<lparr>paused := True\<rparr>\<rparr>))
      else fire unicode w)"

definition Gameplay_handle :: "event \<Rightarrow> world \<Rightarrow> py_error + world" where
  "Gameplay_handle ev w = (case ev of KEYDOWN k unicode \<Rightarrow> on_keydown k unicode w | _ \<Rightarrow> Inr w)"

subsection \<open>Level reset and scene entry\<close>

text \<open>
  \<^verbatim>\<open>exit_intro\<close>: the banner leaves the group and the update stack is popped
  (IndexError on an empty stack).
\<close>

definition exit_intro :: "gameplay \<Rightarrow> py_error + gameplay" where
  "exit_intro g =
     (if updatestack g = [] then Inl IndexError
      else Inr (g\<lparr>group := removeAll ReadySprite (group g), updatestack := butlast (updatestack g)\<rparr>))"

text \<open>
  \<^verbatim>\<open>reset\<close>: the group is emptied (its sprites are not killed, and \<open>cooldowns\<close> is
  not touched), the lock dropped, a new sample drawn for the level, the player's health
  set to 3, and the update stack rebuilt with the intro on top.
\<close>

definition reset :: "env \<Rightarrow> gameplay \<Rightarrow> py_error + gameplay" where
  "reset en g =
     (let g1 = g\<lparr>group := [], max_nsprites := 3, locked := None\<rparr>
      in if length (levels g1) \<le> level g1 then Inl IndexError
         else case Wordbag_randomize (sample_accepts_sets en) (rnd_sample en) (fst (levels g1 ! level g1))
                     (Some (snd (levels g1 ! level g1))) (wordbag g1) of
                Inl e \<Rightarrow> Inl e
              | Inr bag \<Rightarrow>
                 (let g2 = g1\<lparr>wordbag := bag, health := 3,
                              group := group_add [PlayerSprite] (group g1)\<rparr>;
                      g3 = g2\<lparr>updatestack := [update_gameplay_m, update_intro_m], readytime := 0,
                              group := group_add [ReadySprite] (group g2)\<rparr>
                  in if skip_intro g3 then exit_intro g3 else Inr g3))"

text \<open>\<^verbatim>\<open>Gameplay.enter\<close>: reset unless paused; then not paused.\<close>

definition Gameplay_enter :: "env \<Rightarrow> gameplay \<Rightarrow> py_error + gameplay" where
  "Gameplay_enter en g =
     (case (if \<not> paused g then reset en g else Inr g) of
        Inl e \<Rightarrow> Inl e
      | Inr g1 \<Rightarrow> Inr (g1\<lparr>paused := False\<rparr>))"

subsection \<open>Win state and spawning\<close>

text \<open>
  \<^verbatim>\<open>is_win_state\<close>: the wordbag is false, the spawn cooldown is at most 0, and the
  group holds no TextSprite and no Spark.
\<close>

definition is_win_state :: "world \<Rightarrow> bool" where
  "is_win_state w \<longleftrightarrow>
     \<not> Wordbag_bool (wordbag (game w)) \<and> cd_get (cooldowns w) SpawnWord \<le> 0 \<and>
     \<not> list_ex (\<lambda>s. is_TextSprite s \<or> is_Spark s) (group (game w))"

definition needs_word_spawn :: "world \<Rightarrow> bool" where
  "needs_word_spawn w \<longleftrightarrow>
     int (length (filter is_TextSprite (group (game w)))) < max_nsprites (game w) \<and>
     Wordbag_bool (wordbag (game w)) \<and> cd_get (cooldowns w) SpawnWord \<le> 0"

text \<open>
  The rectangle of a new TextSprite: the font's size of the text, inflated by the
  padding \<open>(20, 10)\<close>, at the origin.
\<close>

definition textsprite_rect :: "gameplay \<Rightarrow> string \<Rightarrow> rect" where
  "textsprite_rect g word =
     \<lparr>rleft = 0, rtop = 0, rwidth = fst (font g word) + 20, rheight = snd (font g word) + 10\<rparr>"

definition of_int_pair :: "int \<times> int \<Rightarrow> rat \<times> rat" where
  "of_int_pair c = (of_int (fst c), of_int (snd c))"

text \<open>
  \<^verbatim>\<open>spawn_word\<close>: pops a word, builds its TextSprite (layer 10) and ship, adds both
  to the group, places the ship at the centre of a rectangle that
  \<open>random_location(textsprite.rect, self.spawn_area)\<close> returns (no \<open>avoiding\<close>, no
  \<open>limit\<close>), and sets the spawn cooldown to 1000. The one pair of draws is all the
  call uses; were the call not to return, neither would \<open>spawn_word\<close> (\<open>None\<close>).
\<close>

definition spawn_word :: "env \<Rightarrow> world \<Rightarrow> (py_error + world) option" where
  "spawn_word en w =
     (case Wordbag_pop (wordbag (game w)) of
        Inl e \<Rightarrow> Some (Inl e)
      | Inr (word, bag) \<Rightarrow>
         (let g = game w;
              t = fresh g;
              g1 = g\<lparr>wordbag := bag, texts := (texts g)(t := word), fresh := Suc t,
                     group := group_add [TextSprite t, EnemyShipSprite t] (group g)\<rparr>
          in case random_location (textsprite_rect g1 word) (spawn_area g1) [] None [rnd_xy en] of
               None \<Rightarrow> None
             | Some (Inl e) \<Rightarrow> Some (Inl e)
             | Some (Inr r) \<Rightarrow>
                Some (Inr (w\<lparr>game := g1\<lparr>position := (position g1)(t := of_int_pair (rcenter r))\<rparr>,
                             cooldowns := cd_set SpawnWord 1000 (cooldowns w)\<rparr>))))"



subsection \<open>Entity update\<close>

definition remove_sparks_outofbounds :: "env \<Rightarrow> gameplay \<Rightarrow> gameplay" where
  "remove_sparks_outofbounds en g =
     fold (\<lambda>s g'. if is_Spark s \<and> out_of_bounds en s then kill s g' else g') (group g) g"

text \<open>
  \<^verbatim>\<open>BulletSprite.update\<close>: the accumulator grows by the elapsed time; from 500 on the
  bullet kills itself, knocks its target back and, if the target's text is empty, kills
  the ship and its TextSprite.
\<close>

definition bullet_update :: "env \<Rightarrow> nat \<Rightarrow> gameplay \<Rightarrow> gameplay" where
  "bullet_update en b g =
     (let g1 = g\<lparr>accumulator := (accumulator g)(b := accumulator g b + elapsed en)\<rparr>
      in if accumulator g1 b \<ge> 500 then
           (let t = target g1 b;
                g2 = kill (BulletSprite b) g1;
                g3 = g2\<lparr>position := (position g2)(t := knock_back en (position g2 t))\<rparr>
            in if texts g3 t = [] then kill (TextSprite t) (kill (EnemyShipSprite t) g3) else g3)
         else g1)"

text \<open>
  \<^verbatim>\<open>self.group.update(elapsed)\<close>: every sprite that was in the group when the call
  began is updated, in group order. Only a bullet's update changes more than geometry.
\<close>

definition Group_update :: "env \<Rightarrow> gameplay \<Rightarrow> gameplay" where
  "Group_update en g =
     fold (\<lambda>s g'. case s of BulletSprite b \<Rightarrow> bullet_update en b g' | _ \<Rightarrow> g') (group g) g"

subsection \<open>Explosions\<close>

text \<open>
  \<^verbatim>\<open>Explosion.__init__\<close>: \<open>nsparks\<close> random argument tuples are collected in a
  \<^emph>\<open>set\<close>, and one Spark is built for each element of the set. Centre and colour are
  the same in every tuple, so a tuple is told by its size (one of the two in \<open>sizes\<close>),
  its angle (one of \<open>range(360)\<close>) and its speed. The result is the list of the indices
  of the sparks in the Explosion's group.
\<close>

definition randomspark_args :: "nat \<times> nat \<times> rat \<Rightarrow> nat \<times> nat \<times> rat" where
  "randomspark_args d = (1 + fst d mod 2, fst (snd d) mod 360, snd (snd d))"

definition Explosion_init :: "nat \<Rightarrow> (nat \<Rightarrow> nat \<times> nat \<times> rat) \<Rightarrow> nat list" where
  "Explosion_init nsparks rnd =
     (let sparkargs = remdups (map (\<lambda>i. randomspark_args (rnd i)) [0..<nsparks])
      in [0..<length sparkargs])"

definition add_sparks :: "nat \<Rightarrow> gameplay \<Rightarrow> gameplay" where
  "add_sparks e g = g\<lparr>group := group_add (map (Spark e) (sparks g e)) (group g)\<rparr>"

text \<open>
  \<^verbatim>\<open>spawn_explosions_from_deaths\<close>: a dead bullet's Explosion (10 sparks) goes into
  the group at once; a dead ship's Explosion (600 sparks) is only entered in
  \<open>cooldowns\<close> with 500.
\<close>

definition explode :: "env \<Rightarrow> sprite \<Rightarrow> world \<Rightarrow> world" where
  "explode en s w =
     (let g = game w; e = fresh g
      in case s of
           BulletSprite b \<Rightarrow>
             w\<lparr>game := add_sparks e
                  (g\<lparr>sparks := (sparks g)(e := Explosion_init 10 (rnd_spark en s)), fresh := Suc e\<rparr>)\<rparr>
         | EnemyShipSprite t \<Rightarrow>
             w\<lparr>game := g\<lparr>sparks := (sparks g)(e := Explosion_init 600 (rnd_spark en s)), fresh := Suc e\<rparr>,
               cooldowns := cd_set (ExplosionKey e) 500 (cooldowns w)\<rparr>
         | _ \<Rightarrow> w)"

definition spawn_explosions_from_deaths :: "env \<Rightarrow> sprite list \<Rightarrow> world \<Rightarrow> world" where
  "spawn_explosions_from_deaths en died w = fold (explode en) died w"

text \<open>
  \<^verbatim>\<open>spawn_explosions_from_cooldowns\<close>. Its middle condition asks whether a sprite of
  the group \<open>==\<close> the Explosion; a sprite and an Explosion are objects of different
  classes compared by identity, so the comparison is false for every sprite.
\<close>

definition sprite_eq_explosion :: "sprite \<Rightarrow> nat \<Rightarrow> bool" where
  "sprite_eq_explosion s e = False"

definition spawn_explosions_from_cooldowns :: "cooldowns \<Rightarrow> gameplay \<Rightarrow> gameplay" where
  "spawn_explosions_from_cooldowns cd g =
     fold (\<lambda>kv g'. case fst kv of
                      ExplosionKey e \<Rightarrow>
                        if \<not> list_ex (\<lambda>s. sprite_eq_explosion s e) (group g') \<and> snd kv \<le> 0
                        then add_sparks e g' else g'
                    | _ \<Rightarrow> g') cd g"

definition clear_explosions :: "cooldowns \<Rightarrow> cooldowns" where
  "clear_explosions cd = filter (\<lambda>kv. case fst kv of ExplosionKey e \<Rightarrow> False | _ \<Rightarrow> True) cd"

text \<open>
  The sprites of the group that are bullets or ships, and those of them that the update
  took out of the group (a bullet and a ship are in no other group). Both are Python
  sets, iterated in \<open>set_order\<close>.
\<close>

definition died_in :: "env \<Rightarrow> gameplay \<Rightarrow> gameplay \<Rightarrow> sprite list" where
  "died_in en before after =
     sort_key (set_order en)
       (filter (\<lambda>s. (is_BulletSprite s \<or> is_EnemyShipSprite s) \<and> s \<notin> set (group after))
          (group before))"

subsection \<open>The combat tick\<close>

definition enemyshipsprites :: "env \<Rightarrow> gameplay \<Rightarrow> nat list" where
  "enemyshipsprites en g =
     sort_key (\<lambda>t. set_order en (EnemyShipSprite t))
       (List.map_filter (\<lambda>s. case s of EnemyShipSprite t \<Rightarrow> Some t | _ \<Rightarrow> None) (group g))"

text \<open>
  The loop over the ships at the end of \<^verbatim>\<open>update_gameplay\<close>: each ship moves towards
  the player; the first one that collides while the \<open>'player-hit'\<close> cooldown is at most
  0 is killed with its TextSprite, the cooldown is set to 1000, the player loses one
  point of health (at exactly 0 the You Died menu is pushed), and the loop is left.
\<close>

fun collide_loop :: "env \<Rightarrow> nat list \<Rightarrow> world \<Rightarrow> world" where
  "collide_loop en [] w = w"
| "collide_loop en (t # ts) w =
     (let g = game w;
          p = approach en (position g t);
          g1 = g\<lparr>position := (position g)(t := p)\<rparr>
      in if cd_get (cooldowns w) PlayerHit \<le> 0 \<and> collides en p then
           (let g2 = kill (TextSprite t) (kill (EnemyShipSprite t) g1);
                g3 = g2\<lparr>health := health g2 - 1\<rparr>;
                w1 = w\<lparr>game := g3, cooldowns := cd_set PlayerHit 1000 (cooldowns w)\<rparr>
            in if health g3 = 0 then post (PUSHSTATE died_menu) w1 else w1)
         else collide_loop en ts (w\<lparr>game := g1\<rparr>))"

text \<open>
  The part of \<^verbatim>\<open>update_gameplay\<close> before its last \<open>if\<close>: spawn if needed, remove
  the sparks out of bounds, update the group, explode what died in the update, add the
  sparks of the Explosions in \<open>cooldowns\<close>.
\<close>

definition combat_entities :: "env \<Rightarrow> world \<Rightarrow> world" where
  "combat_entities en w1 =
     (let g1 = remove_sparks_outofbounds en (game w1);
          g2 = Group_update en g1;
          w4 = spawn_explosions_from_deaths en (died_in en g1 g2) (w1\<lparr>game := g2\<rparr>)
      in w4\<lparr>game := spawn_explosions_from_cooldowns (cooldowns w4) (game w4)\<rparr>)"

definition combat_advance :: "env \<Rightarrow> world \<Rightarrow> (py_error + world) option" where
  "combat_advance en w =
     (case (if needs_word_spawn w then spawn_word en w else Some (Inr w)) of
        None \<Rightarrow> None
      | Some (Inl e) \<Rightarrow> Some (Inl e)
      | Some (Inr w1) \<Rightarrow> Some (Inr (combat_entities en w1)))"

text \<open>
  The last \<open>if\<close> of \<^verbatim>\<open>update_gameplay\<close>: with no ship in the group and
  \<open>is_win_state\<close>, the update stack's top is replaced by
  \<open>update_gameplay_wait_for_animations\<close>; otherwise the ships move and collide.
\<close>

definition combat_decide :: "env \<Rightarrow> world \<Rightarrow> py_error + world" where
  "combat_decide en w5 =
     (if enemyshipsprites en (game w5) = [] \<and> is_win_state w5 then
        (if updatestack (game w5) = [] then Inl IndexError
         else Inr (w5\<lparr>game := (game w5)\<lparr>updatestack :=
                     butlast (updatestack (game w5)) @ [update_wait_m]\<rparr>\<rparr>))
      else Inr (collide_loop en (enemyshipsprites en (game w5)) w5))"

definition update_gameplay :: "env \<Rightarrow> world \<Rightarrow> (py_error + world) option" where
  "update_gameplay en w =
     (case combat_advance en w of
        None \<Rightarrow> None
      | Some (Inl e) \<Rightarrow> Some (Inl e)
      | Some (Inr w5) \<Rightarrow> Some (combat_decide en w5))"

subsection \<open>Waiting for the animations\<close>

text \<open>
  \<^verbatim>\<open>check_win_state\<close>: with \<open>len(self.wordbag) == 0\<close> (TypeError on an unset
  sample) and \<open>is_win_state\<close>, the Explosion keys are deleted from \<open>cooldowns\<close> and
  either the winner menu is pushed (last level) or the next level is entered.
\<close>

definition check_win_state :: "env \<Rightarrow> world \<Rightarrow> py_error + world" where
  "check_win_state en w =
     (case Wordbag_len (wordbag (game w)) of
        Inl e \<Rightarrow> Inl e
      | Inr n \<Rightarrow>
         if n = 0 \<and> is_win_state w then
           (let w1 = w\<lparr>cooldowns := clear_explosions (cooldowns w)\<rparr>
            in if level (game w1) + 1 = length (levels (game w1))
               then Inr (post (PUSHSTATE winner_menu) w1)
               else case Gameplay_enter en ((game w1)\<lparr>paused := False, level := level (game w1) + 1\<rparr>) of
                      Inl e \<Rightarrow> Inl e
                    | Inr g \<Rightarrow> Inr (w1\<lparr>game := g\<rparr>))
         else Inr w)"

definition wait_entities :: "env \<Rightarrow> world \<Rightarrow> world" where
  "wait_entities en w =
     (let g2 = Group_update en (game w);
          died = died_in en (game w) g2;
          g3 = remove_sparks_outofbounds en g2;
          w4 = spawn_explosions_from_deaths en died (w\<lparr>game := g3\<rparr>)
      in w4\<lparr>game := spawn_explosions_from_cooldowns (cooldowns w4) (game w4)\<rparr>)"

definition update_gameplay_wait_for_animations :: "env \<Rightarrow> world \<Rightarrow> py_error + world" where
  "update_gameplay_wait_for_animations en w = check_win_state en (wait_entities en w)"

subsection \<open>Intro and dispatch\<close>

text \<open>
  \<^verbatim>\<open>update_intro\<close>: the banner's time grows by .02 a call and the intro is left once
  it is no longer below 3. The source adds floating-point numbers; the model adds the
  exact fiftieth, so the call on which the intro ends may differ by one from the
  source's. The banner's movement is geometry only.
\<close>

definition update_intro :: "env \<Rightarrow> world \<Rightarrow> py_error + world" where
  "update_intro en w =
     (let g1 = Group_update en (game w);
          g2 = g1\<lparr>readytime := readytime g1 + 1 / 50\<rparr>
      in if readytime g2 < 3 then Inr (w\<lparr>game := g2\<rparr>)
         else case exit_intro g2 of Inl e \<Rightarrow> Inl e | Inr g3 \<Rightarrow> Inr (w\<lparr>game := g3\<rparr>))"

text \<open>\<^verbatim>\<open>Gameplay.update\<close>: \<open>self.updatestack[-1](elapsed)\<close>.\<close>

definition Gameplay_update :: "env \<Rightarrow> world \<Rightarrow> (py_error + world) option" where
  "Gameplay_update en w =
     (if updatestack (game w) = [] then Some (Inl IndexError)
      else case last (updatestack (game w)) of
             update_intro_m \<Rightarrow> Some (update_intro en w)
           | update_gameplay_m \<Rightarrow> update_gameplay en w
           | update_wait_m \<Rightarrow> Some (update_gameplay_wait_for_animations en w))"

section \<open>Menus, state manager and engine\<close>

fun first_button :: "item list \<Rightarrow> nat option" where
  "first_button [] = None"
| "first_button (Label l # its) = map_option Suc (first_button its)"
| "first_button (Button l cb # its) = Some 0"

text \<open>\<^verbatim>\<open>select_first_button\<close>: hover the first button; with no button, nothing changes.\<close>

definition select_first_button :: "item list \<Rightarrow> nat option \<Rightarrow> nat option" where
  "select_first_button its h = (case first_button its of None \<Rightarrow> h | Some i \<Rightarrow> Some i)"

definition do_callback :: "callback \<Rightarrow> world \<Rightarrow> world" where
  "do_callback cb w =
     (case cb of
        CbPopstate \<Rightarrow> post POPSTATE w
      | CbPushGameplay \<Rightarrow> post (PUSHSTATE Gameplay) w
      | CbBackToMainmenu \<Rightarrow> post POPSTATE (post POPSTATE w)
      | CbQuit \<Rightarrow> post QUIT w)"

text \<open>
  \<open>self.hover.button\<close>, then \<open>do_callback\<close>: AttributeError when nothing is hovered
  (or the hovered item is no button).
\<close>

definition hover_callback :: "item list \<Rightarrow> nat option \<Rightarrow> world \<Rightarrow> py_error + world" where
  "hover_callback its h w =
     (case h of
        None \<Rightarrow> Inl AttributeError
      | Some i \<Rightarrow>
         (if i < length its then
            (case its ! i of Button l cb \<Rightarrow> Inr (do_callback cb w) | Label l \<Rightarrow> Inl AttributeError)
          else Inl AttributeError))"

definition set_top :: "scene \<Rightarrow> world \<Rightarrow> world" where
  "set_top sc w = w\<lparr>stack := butlast (stack w) @ [sc]\<rparr>"

text \<open>
  \<^verbatim>\<open>MenuState.handle\<close> for the menu on top of the stack. Return calls the hovered
  button's callback if one is hovered. Down and Up hover the first button if none is
  hovered (the mouse move they ask for arrives as a later motion event). A click inside
  a button calls the \<^emph>\<open>hovered\<close> button's callback. A motion hovers the button under
  the mouse, or none.
\<close>

definition Menu_handle :: "event \<Rightarrow> item list \<Rightarrow> nat option \<Rightarrow> world \<Rightarrow> py_error + world" where
  "Menu_handle ev its h w =
     (case ev of
        KEYDOWN k unicode \<Rightarrow>
          (if k = K_RETURN then (if h = None then Inr w else hover_callback its h w)
           else if k = K_DOWN \<or> k = K_UP then
             (if h = None then Inr (set_top (MenuState its (select_first_button its h)) w) else Inr w)
           else Inr w)
      | MOUSEBUTTONDOWN hit \<Rightarrow> (if hit = None then Inr w else hover_callback its h w)
      | MOUSEMOTION hit \<Rightarrow> Inr (set_top (MenuState its hit) w)
      | _ \<Rightarrow> Inr w)"

text \<open>\<open>enter()\<close> of the scene on top of the stack. \<open>exit()\<close> does nothing in any scene.\<close>

definition enter_top :: "env \<Rightarrow> world \<Rightarrow> py_error + world" where
  "enter_top en w =
     (case last (stack w) of
        Gameplay \<Rightarrow> (case Gameplay_enter en (game w) of Inl e \<Rightarrow> Inl e | Inr g \<Rightarrow> Inr (w\<lparr>game := g\<rparr>))
      | MenuState its h \<Rightarrow> Inr (set_top (MenuState its (select_first_button its h)) w))"

text \<open>\<^verbatim>\<open>StateManager.pop\<close>: IndexError on an empty stack; the new top, if any, is entered.\<close>

definition StateManager_pop :: "env \<Rightarrow> world \<Rightarrow> py_error + world" where
  "StateManager_pop en w =
     (if stack w = [] then Inl IndexError
      else (let w1 = w\<lparr>stack := butlast (stack w)\<rparr>
            in if stack w1 \<noteq> [] then enter_top en w1 else Inr w1))"

definition StateManager_push :: "env \<Rightarrow> scene \<Rightarrow> world \<Rightarrow> py_error + world" where
  "StateManager_push en sc w = enter_top en (w\<lparr>stack := stack w @ [sc]\<rparr>)"

text \<open>
  \<^verbatim>\<open>StateManager.update\<close>: the queue is taken whole; pops and pushes are applied in
  order, every other event is posted again.
\<close>

fun StateManager_events :: "env \<Rightarrow> event list \<Rightarrow> world \<Rightarrow> py_error + world" where
  "StateManager_events en [] w = Inr w"
| "StateManager_events en (ev # evs) w =
     (case (case ev of
              POPSTATE \<Rightarrow> StateManager_pop en w
            | PUSHSTATE sc \<Rightarrow> StateManager_push en sc w
            | _ \<Rightarrow> Inr (post ev w)) of
        Inl e \<Rightarrow> Inl e
      | Inr w1 \<Rightarrow> StateManager_events en evs w1)"

definition StateManager_update :: "env \<Rightarrow> world \<Rightarrow> py_error + world" where
  "StateManager_update en w = StateManager_events en (posted w) (w\<lparr>posted := []\<rparr>)"

definition current_handle :: "event \<Rightarrow> world \<Rightarrow> py_error + world" where
  "current_handle ev w =
     (case last (stack w) of
        Gameplay \<Rightarrow> Gameplay_handle ev w
      | MenuState its h \<Rightarrow> Menu_handle ev its h w)"

fun handle_events :: "event list \<Rightarrow> world \<Rightarrow> py_error + world" where
  "handle_events [] w = Inr w"
| "handle_events (ev # evs) w =
     (case current_handle ev w of Inl e \<Rightarrow> Inl e | Inr w1 \<Rightarrow> handle_events evs w1)"

definition current_update :: "env \<Rightarrow> world \<Rightarrow> (py_error + world) option" where
  "current_update en w =
     (case last (stack w) of
        Gameplay \<Rightarrow> Gameplay_update en w
      | MenuState its h \<Rightarrow> Some (Inr w))"

text \<open>
  One pass of the loop of \<^verbatim>\<open>Engine.run\<close>. \<open>evs\<close> are the input events that reach the
  queue for this pass. The pass ends the loop (\<open>Stopped\<close>) when a QUIT is queued or
  when the stack is empty after the state changes; otherwise the events left in the
  queue are handled by the current scene, the cooldowns are updated, and the current
  scene is updated. Drawing is not modelled.
\<close>

datatype outcome = Stopped | Running world

definition frame :: "env \<Rightarrow> event list \<Rightarrow> world \<Rightarrow> (py_error + outcome) option" where
  "frame en evs w =
     (let w0 = w\<lparr>posted := posted w @ evs\<rparr>
      in if QUIT \<in> set (posted w0) then Some (Inr Stopped)
         else case StateManager_update en w0 of
                Inl e \<Rightarrow> Some (Inl e)
              | Inr w1 \<Rightarrow>
                 if stack w1 = [] then Some (Inr Stopped)
                 else case handle_events (posted w1) (w1\<lparr>posted := []\<rparr>) of
                        Inl e \<Rightarrow> Some (Inl e)
                      | Inr w2 \<Rightarrow>
                         (case current_update en
                                 (w2\<lparr>cooldowns := update_cooldowns (elapsed en) (cooldowns w2)\<rparr>) of
                            None \<Rightarrow> None
                          | Some (Inl e) \<Rightarrow> Some (Inl e)
                          | Some (Inr w3) \<Rightarrow> Some (Inr (Running w3))))"

text \<open>
  \<^verbatim>\<open>haspunctuation\<close>: \<open>string.punctuation\<close> is the ASCII characters 33 to 47, 58 to
  64, 91 to 96 and 123 to 126.
\<close>

definition punctuation :: "char \<Rightarrow> bool" where
  "punctuation c \<longleftrightarrow>
     (let n = (of_char c :: nat)
      in (33 \<le> n \<and> n \<le> 47) \<or> (58 \<le> n \<and> n \<le> 64) \<or> (91 \<le> n \<and> n \<le> 96) \<or> (123 \<le> n \<and> n \<le> 126))"

definition haspunctuation :: "string \<Rightarrow> bool" where
  "haspunctuation word = list_ex punctuation word"

text \<open>The \<open>levels\<close> of \<^verbatim>\<open>start\<close>: sample size and predicate.\<close>

definition start_levels :: "(int \<times> (string \<Rightarrow> bool)) list" where
  "start_levels =
     [(5, \<lambda>word. \<not> haspunctuation word \<and> 1 < length word \<and> length word < 5),
      (10, \<lambda>word. \<not> haspunctuation word \<and> 2 < length word \<and> length word < 5),
      (15, \<lambda>word. \<not> haspunctuation word \<and> 3 < length word \<and> length word < 5),
      (20, \<lambda>word. \<not> haspunctuation word \<and> length word > 4),
      (20, \<lambda>word. \<not> haspunctuation word \<and> length word > 7)]"

text \<open>
  \<^verbatim>\<open>start\<close>, up to the call of \<open>engine.run()\<close>: the words of the file, the font and
  the spawn area (both come from pygame) and the two skip flags give the first state,
  with the push of the first scene queued.
\<close>

definition start :: "string list \<Rightarrow> (string \<Rightarrow> int \<times> int) \<Rightarrow> rect \<Rightarrow> bool \<Rightarrow> bool \<Rightarrow> world" where
  "start ws fnt area skip_mainmenu skip =
     \<lparr>stack = [], cooldowns = [],
      posted = [PUSHSTATE (if skip_mainmenu then Gameplay else mainmenu)],
      game = Gameplay_init area (Wordbag_init ws) fnt start_levels skip\<rparr>"

text \<open>
  The states the engine reaches: the first state, and the state after any pass of the
  loop from a reached state, whatever the pass takes from outside.
\<close>

inductive reachable :: "world \<Rightarrow> bool" where
  reachable_start: "reachable (start ws fnt area skip_mainmenu skip)"
| reachable_frame: "reachable w \<Longrightarrow> frame en evs w = Some (Inr (Running w')) \<Longrightarrow> reachable w'"



text \<open>
  The events that come from the keyboard and the mouse, as against those the program
  posts itself.
\<close>

fun user_event :: "event \<Rightarrow> bool" where
  "user_event (KEYDOWN k u) = True"
| "user_event (MOUSEBUTTONDOWN hit) = True"
| "user_event (MOUSEMOTION hit) = True"
| "user_event ev = False"

section \<open>Concrete inputs\<close>

text \<open>
  A word file, a font (12 pixels a letter, 22 high) and the spawn area that \<open>start\<close>
  computes from a 500 by 900 screen and that font. \<open>calm\<close> is a pass of \<open>ms\<close>
  milliseconds on Python up to 3.10 in which every random draw is 0, every spark draw is different, and no
  rectangle leaves the space or touches the player; \<open>crash\<close> differs in that every
  ship that moves touches the player.
\<close>

definition words_txt :: "string list" where
  "words_txt = [''cat'', ''dog'', ''bird'', ''fish'', ''frog'', ''a'']"

definition font32 :: "string \<Rightarrow> int \<times> int" where
  "font32 word = (12 * int (length word), 22)"

definition area32 :: rect where
  "area32 = \<lparr>rleft = - 62, rtop = - 44, rwidth = 625, rheight = 44\<rparr>"



text \<open>Ten words, so that the first two levels can draw their samples.\<close>

definition words10 :: "string list" where
  "words10 = [''cat'', ''dog'', ''bird'', ''fish'', ''frog'', ''lion'', ''bear'', ''wolf'',
     ''duck'', ''crow'']"

section \<open>What an update of the entities leaves alone\<close>


text \<open>
  The state in which \<open>start words10 font32 area32 True True\<close> stands once the queued
  push of Gameplay is done (with every random draw 0): level 0 entered, intro skipped.
\<close>

definition arena :: world where
  "arena = \<lparr>stack = [Gameplay], cooldowns = [], posted = [],
     game = (Gameplay_init area32
               \<lparr>wb_words = words10, wb_sample = Some [''cat'', ''dog'', ''bird'', ''fish'', ''frog'']\<rparr>
               font32 start_levels True)
            \<lparr>group := [PlayerSprite], updatestack := [update_gameplay_m]\<rparr>\<rparr>"






text \<open>
  A paused game: target 0 has been spawned, Escape has been pressed and the pause menu
  pushed, its first button hovered.
\<close>

definition pausing :: world where
  "pausing = arena\<lparr>stack := [Gameplay, MenuState pause_items (Some 1)],
     cooldowns := [(SpawnWord, 984)],
     game := (game arena)\<lparr>
       wordbag := (wordbag (game arena))\<lparr>wb_sample := Some [''cat'', ''dog'', ''bird'', ''fish'']\<rparr>,
       paused := True, group := [PlayerSprite, EnemyShipSprite 0, TextSprite 0],
       texts := (\<lambda>t. if t = 0 then ''frog'' else []), position := (\<lambda>t. (- 28, - 26)), fresh := 1\<rparr>\<rparr>"

(*EXAMPLES*)
(*THEOREMS*)

section \<open>The word pool\<close>

lemma remove_nth_props:
  assumes "distinct pool" "i < length pool"
  shows "distinct (take i pool @ drop (Suc i) pool)"
    and "set (take i pool @ drop (Suc i) pool) = set pool - {pool ! i}"
proof -
  have eq: "pool = take i pool @ pool ! i # drop (Suc i) pool"
    using assms(2) by (rule id_take_nth_drop)
  have d: "distinct (take i pool @ pool ! i # drop (Suc i) pool)"
    using assms(1) eq by simp
  from d show "distinct (take i pool @ drop (Suc i) pool)" by auto
  have "set pool = set (take i pool @ pool ! i # drop (Suc i) pool)" using eq by simp
  with d show "set (take i pool @ drop (Suc i) pool) = set pool - {pool ! i}" by auto
qed

lemma draw_sample_length: "length (draw_sample rnd pool k) = k"
  by (induction k arbitrary: pool) (auto simp: Let_def)

lemma draw_sample_ok:
  "distinct pool \<Longrightarrow> k \<le> length pool \<Longrightarrow>
     distinct (draw_sample rnd pool k) \<and> set (draw_sample rnd pool k) \<subseteq> set pool"
proof (induction k arbitrary: pool)
  case 0
  then show ?case by simp
next
  case (Suc k)
  let ?i = "rnd k mod length pool"
  let ?rest = "take ?i pool @ drop (Suc ?i) pool"
  from Suc.prems have pos: "0 < length pool" by auto
  then have i: "?i < length pool" by simp
  from remove_nth_props[OF Suc.prems(1) i]
  have d: "distinct ?rest" and s: "set ?rest = set pool - {pool ! ?i}" by auto
  have "k \<le> length ?rest" using Suc.prems(2) i by simp
  from Suc.IH[OF d this]
  have ih: "distinct (draw_sample rnd ?rest k)" "set (draw_sample rnd ?rest k) \<subseteq> set ?rest" by auto
  have "pool ! ?i \<in> set pool" using i by simp
  with ih s show ?case by (auto simp: Let_def)
qed

text \<open>
  C10. A Wordbag on which \<open>randomize\<close> was never called is false, its sample is unset
  (which is not the empty sample), and both \<open>pop()\<close> and \<open>len()\<close> raise an error in
  that state.
\<close>

theorem fresh_wordbag_unset:
  "\<not> Wordbag_bool (Wordbag_init ws)
   \<and> wb_sample (Wordbag_init ws) = None
   \<and> wb_sample (Wordbag_init ws) \<noteq> Some []
   \<and> Wordbag_pop (Wordbag_init ws) = Inl AttributeError
   \<and> Wordbag_len (Wordbag_init ws) = Inl TypeError"
  by (simp add: Wordbag_bool_def Wordbag_init_def Wordbag_pop_def Wordbag_len_def)

lemma eligible_count: "card {w \<in> set ws. P w} = length (remdups (filter P ws))"
proof -
  have "{w \<in> set ws. P w} = set (filter P ws)" by auto
  then show ?thesis by (simp add: length_remdups_card_conv)
qed

text \<open>
  Where \<open>random.sample\<close> accepts a set (Python up to 3.10), \<open>randomize\<close> does what
  its caller expects: with \<open>k\<close> from 0 to the number of vocabulary words that satisfy
  the predicate, the sample becomes the \<open>k\<close> drawn words, whatever it was before, and
  these are all different and all eligible; with a larger \<open>k\<close> it raises ValueError
  and the sample stays.
\<close>

lemma randomize_sets_accepted:
  assumes "0 \<le> k" and "k \<le> int (card {w \<in> set (wb_words wb). P w})"
  shows "Wordbag_randomize True rnd k (Some P) wb =
           Inr (wb\<lparr>wb_sample := Some (draw_sample rnd (remdups (filter P (wb_words wb))) (nat k))\<rparr>)"
    and "int (length (draw_sample rnd (remdups (filter P (wb_words wb))) (nat k))) = k"
    and "distinct (draw_sample rnd (remdups (filter P (wb_words wb))) (nat k))"
    and "set (draw_sample rnd (remdups (filter P (wb_words wb))) (nat k)) \<subseteq> {w \<in> set (wb_words wb). P w}"
proof -
  let ?pop = "remdups (filter P (wb_words wb))"
  from assms have le: "nat k \<le> length ?pop" by (simp add: eligible_count nat_le_iff)
  have ok: "distinct (draw_sample rnd ?pop (nat k)) \<and> set (draw_sample rnd ?pop (nat k)) \<subseteq> set ?pop"
    by (rule draw_sample_ok) (use le in simp_all)
  show "Wordbag_randomize True rnd k (Some P) wb = Inr (wb\<lparr>wb_sample := Some (draw_sample rnd ?pop (nat k))\<rparr>)"
    using assms by (simp add: Wordbag_randomize_def random_sample_def eligible_count)
  show "int (length (draw_sample rnd ?pop (nat k))) = k"
    using assms by (simp add: draw_sample_length)
  show "distinct (draw_sample rnd ?pop (nat k))" using ok by simp
  show "set (draw_sample rnd ?pop (nat k)) \<subseteq> {w \<in> set (wb_words wb). P w}" using ok by auto
qed

lemma randomize_too_many:
  "int (card {w \<in> set (wb_words wb). P w}) < k \<Longrightarrow> Wordbag_randomize True rnd k (Some P) wb = Inl ValueError"
  by (simp add: Wordbag_randomize_def random_sample_def eligible_count)

text \<open>
  C7 against the code. Where \<open>random.sample\<close> rejects a set (Python 3.11 and later),
  \<open>randomize\<close> raises TypeError for every size, predicate and vocabulary, also when
  \<open>k\<close> is at most the number of eligible words, and no sample is drawn: there the
  code does not do what the claim says. Where sets are accepted (Python up to 3.10) it
  does: a size from 0 to the number of eligible words makes the sample exactly the
  \<open>k\<close> drawn words, all different and all eligible, whatever the sample was before,
  and a larger size raises ValueError.
\<close>

theorem randomize_by_interpreter:
  "Wordbag_randomize False rnd k predicate wb = Inl TypeError
   \<and> (0 \<le> k \<and> k \<le> int (card {w \<in> set (wb_words wb). P w}) \<longrightarrow>
        Wordbag_randomize True rnd k (Some P) wb =
          Inr (wb\<lparr>wb_sample := Some (draw_sample rnd (remdups (filter P (wb_words wb))) (nat k))\<rparr>)
        \<and> int (length (draw_sample rnd (remdups (filter P (wb_words wb))) (nat k))) = k
        \<and> distinct (draw_sample rnd (remdups (filter P (wb_words wb))) (nat k))
        \<and> set (draw_sample rnd (remdups (filter P (wb_words wb))) (nat k))
             \<subseteq> {w \<in> set (wb_words wb). P w})
   \<and> (int (card {w \<in> set (wb_words wb). P w}) < k \<longrightarrow>
        Wordbag_randomize True rnd k (Some P) wb = Inl ValueError)"
proof -
  have "Wordbag_randomize False rnd k predicate wb = Inl TypeError"
    by (simp add: Wordbag_randomize_def random_sample_def Let_def)
  then show ?thesis
    using randomize_sets_accepted[of k wb P rnd] randomize_too_many[of wb P k rnd] by blast
qed

theorem randomize_by_interpreter_witness:
  "Wordbag_randomize False (\<lambda>j. 0) 2 (Some (\<lambda>w. 1 < length w))
       (Wordbag_init [''cat'', ''a'', ''dog'', ''cat'']\<lparr>wb_sample := Some [''old'']\<rparr>) = Inl TypeError
   \<and> Wordbag_randomize True (\<lambda>j. 0) 2 (Some (\<lambda>w. 1 < length w))
       (Wordbag_init [''cat'', ''a'', ''dog'', ''cat'']\<lparr>wb_sample := Some [''old'']\<rparr>)
     = Inr (Wordbag_init [''cat'', ''a'', ''dog'', ''cat'']\<lparr>wb_sample := Some [''dog'', ''cat'']\<rparr>)
   \<and> Wordbag_randomize True (\<lambda>j. 0) 3 (Some (\<lambda>w. 1 < length w))
       (Wordbag_init [''cat'', ''a'', ''dog'', ''cat'']\<lparr>wb_sample := Some [''old'']\<rparr>) = Inl ValueError
   \<and> card {w \<in> set (wb_words (Wordbag_init [''cat'', ''a'', ''dog'', ''cat'']\<lparr>wb_sample := Some [''old'']\<rparr>)).
             1 < length w} = 2"
proof -
  let ?wb = "Wordbag_init [''cat'', ''a'', ''dog'', ''cat'']\<lparr>wb_sample := Some [''old'']\<rparr>"
  have c: "card {w \<in> set (wb_words ?wb). 1 < length w} = 2"
    unfolding eligible_count by (simp add: Wordbag_init_def)
  have d: "draw_sample (\<lambda>j. 0) (remdups (filter (\<lambda>w. 1 < length w) (wb_words ?wb))) (nat 2) = [''dog'', ''cat'']"
    by (simp add: Wordbag_init_def eval_nat_numeral)
  from randomize_by_interpreter [of "\<lambda>j. 0" 2 "Some (\<lambda>w. 1 < length w)" ?wb "\<lambda>w. 1 < length w"]
    randomize_by_interpreter [of "\<lambda>j. 0" 3 "Some (\<lambda>w. 1 < length w)" ?wb "\<lambda>w. 1 < length w"]
  show ?thesis unfolding c d by (simp add: Wordbag_init_def)
qed

section \<open>The timer registry\<close>

lemma cd_get_update_cooldowns:
  "cd_get (update_cooldowns e cd) k = (if 0 < cd_get cd k then cd_get cd k - e else cd_get cd k)"
  unfolding cd_get_def update_cooldowns_def
  by (induction cd) (auto split: option.splits)

text \<open>
  C4, as the code has it. On a pass of the engine loop every entry above 0 is lowered by
  exactly the elapsed time and every other entry is left as it is; no key is added or
  removed. There is no clamp: with a non-negative elapsed time an entry never grows,
  and one that was above 0 ends above minus the elapsed time, which can be below 0.
\<close>

theorem cooldowns_not_clamped:
  "cd_get (update_cooldowns e cd) k = (if 0 < cd_get cd k then cd_get cd k - e else cd_get cd k)
   \<and> map fst (update_cooldowns e cd) = map fst cd
   \<and> (0 \<le> e \<longrightarrow> cd_get (update_cooldowns e cd) k \<le> cd_get cd k
                \<and> (0 < cd_get cd k \<longrightarrow> - e < cd_get (update_cooldowns e cd) k))"
proof -
  have "map fst (update_cooldowns e cd) = map fst cd"
    by (induction cd) (auto simp: update_cooldowns_def)
  then show ?thesis by (simp add: cd_get_update_cooldowns)
qed

theorem cooldowns_not_clamped_witness:
  "cd_get (update_cooldowns 16 [(SpawnWord, 1000), (PlayerHit, 0)]) SpawnWord = 984
   \<and> cd_get (update_cooldowns 16 [(SpawnWord, 1000), (PlayerHit, 0)]) PlayerHit = 0"
  using cooldowns_not_clamped [of 16 "[(SpawnWord, 1000), (PlayerHit, 0)]" SpawnWord]
    cooldowns_not_clamped [of 16 "[(SpawnWord, 1000), (PlayerHit, 0)]" PlayerHit]
  by (simp add: cd_get_def)

text \<open>
  C4 as stated fails: an entry of 10 with 16 milliseconds elapsed becomes -6, below the
  value 0 from which an entry counts as ready.
\<close>

theorem cooldowns_overshoot:
  "cd_get (update_cooldowns 16 [(SpawnWord, 10)]) SpawnWord = - 6
   \<and> \<not> 0 \<le> cd_get (update_cooldowns 16 [(SpawnWord, 10)]) SpawnWord"
  by (simp add: cd_get_def update_cooldowns_def)

section \<open>Sprite groups and explosions\<close>









section \<open>Frame lemmas\<close>















section \<open>Spawning and colliding\<close>




lemma random_location_returns:
  "random_location rect inside [] None (d # ds) \<noteq> None"
  by (simp add: random_location_def Let_def split: sum.split)


lemma spawn_word_returns: "spawn_word en w \<noteq> None"
proof (cases "Wordbag_pop (wordbag (game w))")
  case (Inl e)
  then show ?thesis by (simp add: spawn_word_def)
next
  case (Inr p)
  obtain word bag where p: "p = (word, bag)" by (cases p)
  let ?g1 = "(game w)\<lparr>wordbag := bag, texts := (texts (game w))(fresh (game w) := word),
     fresh := Suc (fresh (game w)),
     group := group_add [TextSprite (fresh (game w)), EnemyShipSprite (fresh (game w))] (group (game w))\<rparr>"
  obtain r where "random_location (textsprite_rect ?g1 word) (spawn_area ?g1) [] None [rnd_xy en] = Some r"
    using random_location_returns[of "textsprite_rect ?g1 word" "spawn_area ?g1" "rnd_xy en" "[]"] by blast
  with Inr p show ?thesis
    by (cases r) (simp_all add: spawn_word_def Let_def)
qed




lemma place_size: "rwidth (place rect inside d) = rwidth rect" "rheight (place rect inside d) = rheight rect"
  by (simp_all add: place_def clamp_ip_def set_center_def)





section \<open>Explosions\<close>

lemma explode_bullet:
  "explode en (BulletSprite b) w =
     w\<lparr>game := (game w)\<lparr>sparks := (sparks (game w))(fresh (game w) := Explosion_init 10 (rnd_spark en (BulletSprite b))),
                         fresh := Suc (fresh (game w)),
                         group := group_add (map (Spark (fresh (game w))) (Explosion_init 10 (rnd_spark en (BulletSprite b))))
                                    (group (game w))\<rparr>\<rparr>"
  by (simp add: explode_def Let_def add_sparks_def)





section \<open>Typing, bullets and the lock\<close>














section \<open>The win condition\<close>











end
